theory Spec2Isabelle
  imports Main
begin

section \<open>Python values\<close>

text \<open>
  The viewer keeps its history in JSON files and reads them back without checking
  their shape, so the values it handles are whatever \<^verbatim>\<open>json.loads\<close> returns. They are
  modelled as one type of Python objects: \<^verbatim>\<open>None\<close>, booleans, integers, strings, lists and
  dictionaries (floats do not occur in what the program writes and are left out).
  A string is the list of the bytes of its UTF-8 encoding. A dictionary is the list of
  its items in insertion order, with keys that are pairwise different as Python compares
  them. An exception is a value of \<open>exn\<close>; a function that may raise returns
  \<open>exn + 'a\<close>, with \<open>Inl\<close> for the exception.
\<close>

datatype pyval =
    PNone
  | PBool bool
  | PInt int
  | PStr string
  | PList "pyval list"
  | PDict "(pyval \<times> pyval) list"

datatype exn =
    OSError
  | JSONDecodeError
  | AttributeError
  | TypeError
  | KeyError
  | ValueError
  | IndexError
  | HTTPError nat
  | RequestException string

text \<open>
  Hashing and equality of keys: lists and dictionaries are unhashable, and \<^verbatim>\<open>True == 1\<close>,
  \<^verbatim>\<open>False == 0\<close>, so a boolean and the integer it equals are one key.
\<close>

fun hash_key :: "pyval \<Rightarrow> pyval option" where
  "hash_key PNone = Some PNone"
| "hash_key (PBool b) = Some (PInt (if b then 1 else 0))"
| "hash_key (PInt i) = Some (PInt i)"
| "hash_key (PStr s) = Some (PStr s)"
| "hash_key (PList xs) = None"
| "hash_key (PDict kvs) = None"

text \<open>
  A Python \<^verbatim>\<open>set\<close> is the list of its elements, without repetition (as Python compares
  them). The order in which Python enumerates a set is left open by the language; the
  model enumerates in insertion order, and no statement below depends on that order.
\<close>

definition set_contains :: "pyval list \<Rightarrow> pyval \<Rightarrow> bool" where
  "set_contains xs x = (hash_key x \<in> hash_key ` set xs)"

definition set_add :: "pyval list \<Rightarrow> pyval \<Rightarrow> pyval list" where
  "set_add xs x = (if set_contains xs x then xs else xs @ [x])"

fun dict_get :: "(pyval \<times> pyval) list \<Rightarrow> pyval \<Rightarrow> pyval option" where
  "dict_get [] k = None"
| "dict_get ((k', v) # kvs) k = (if hash_key k' = hash_key k then Some v else dict_get kvs k)"

fun dict_set :: "(pyval \<times> pyval) list \<Rightarrow> pyval \<Rightarrow> pyval \<Rightarrow> (pyval \<times> pyval) list" where
  "dict_set [] k v = [(k, v)]"
| "dict_set ((k', v') # kvs) k v =
     (if hash_key k' = hash_key k then (k', v) # kvs else (k', v') # dict_set kvs k v)"

subsection \<open>Decimal text of an integer\<close>

definition digit_char :: "nat \<Rightarrow> char" where
  "digit_char d = char_of (48 + d)"

function str_nat :: "nat \<Rightarrow> string" where
  "str_nat n = (if n < 10 then [digit_char n] else str_nat (n div 10) @ [digit_char (n mod 10)])"
  by pat_completeness auto
termination
  by (relation "measure id") auto

declare str_nat.simps [simp del]

definition str_int :: "int \<Rightarrow> string" where
  "str_int i = (if i < 0 then CHR ''-'' # str_nat (nat (- i)) else str_nat (nat i))"

subsection \<open>Code points of a string\<close>

text \<open>
  Iterating a Python string yields its code points, each a string of length one. On the
  UTF-8 bytes a code point is a lead byte with the continuation bytes its value announces.
\<close>

definition utf8_len :: "char \<Rightarrow> nat" where
  "utf8_len c =
     (let b = (of_char c :: nat)
      in if b < 0xC0 then 1 else if b < 0xE0 then 2 else if b < 0xF0 then 3 else 4)"

function code_points :: "string \<Rightarrow> string list" where
  "code_points [] = []"
| "code_points (c # cs) =
     (c # take (utf8_len c - 1) cs) # code_points (drop (utf8_len c - 1) cs)"
  by pat_completeness auto
termination
  by (relation "measure length") auto

section \<open>The JSON documents on disk\<close>

text \<open>
  \<^verbatim>\<open>json.dumps\<close> followed by \<^verbatim>\<open>json.loads\<close>: what comes back when a value is written and the
  text is parsed again. JSON object keys are strings, so \<^verbatim>\<open>dumps\<close> turns every key into
  its text (\<^verbatim>\<open>25\<close> into \<^verbatim>\<open>"25"\<close>, \<^verbatim>\<open>True\<close> into \<^verbatim>\<open>"true"\<close>, \<^verbatim>\<open>None\<close> into \<^verbatim>\<open>"null"\<close>) and
  raises \<^verbatim>\<open>TypeError\<close> on a key that is a list or a dictionary (the result \<open>None\<close>
  here); \<^verbatim>\<open>loads\<close> keeps the last value of a key that occurs twice.
\<close>

fun json_key :: "pyval \<Rightarrow> string option" where
  "json_key (PStr s) = Some s"
| "json_key (PInt i) = Some (str_int i)"
| "json_key (PBool b) = Some (if b then ''true'' else ''false'')"
| "json_key PNone = Some ''null''"
| "json_key (PList xs) = None"
| "json_key (PDict kvs) = None"

fun json_items :: "(string option \<times> pyval option) list \<Rightarrow> (pyval \<times> pyval) list option" where
  "json_items [] = Some []"
| "json_items ((Some s, Some j) # r) =
     (case json_items r of None \<Rightarrow> None | Some d \<Rightarrow> Some ((PStr s, j) # d))"
| "json_items (_ # r) = None"

fun json_image :: "pyval \<Rightarrow> pyval option" where
  "json_image (PList xs) = map_option PList (those (map json_image xs))"
| "json_image (PDict kvs) =
     (case json_items (map (\<lambda>kv. (json_key (fst kv), json_image (snd kv))) kvs) of
        None \<Rightarrow> None
      | Some ps \<Rightarrow> Some (PDict (fold (\<lambda>kv d. dict_set d (fst kv) (snd kv)) ps [])))"
| "json_image v = Some v"

text \<open>
  A document of the program, seen through \<^verbatim>\<open>json.loads(PATH.read_text())\<close>: there is no
  file that can be read (\<^verbatim>\<open>read_text\<close> raises), the file holds what is not JSON
  (\<^verbatim>\<open>loads\<close> raises; an empty file and a file cut short while an object or array was
  written are of this kind), or it holds the JSON text of a value.
\<close>

datatype doc = Missing | Corrupt | Json pyval

definition read_json :: "doc \<Rightarrow> exn + pyval" where
  "read_json d = (case d of Missing \<Rightarrow> Inl OSError | Corrupt \<Rightarrow> Inl JSONDecodeError | Json v \<Rightarrow> Inr v)"

text \<open>
  \<^verbatim>\<open>Path.write_text\<close> opens the file for writing, which empties it, and then writes the
  text. The environment decides how a call ends: it completes; it fails before the file
  is opened, and the file is untouched; or it fails after the file was opened, with only
  the first \<open>n\<close> characters written. The program writes a document as one JSON object
  or array, of which no shorter text is JSON, so a write of a document that fails on the
  way leaves text that is not JSON. (A write that fails with all of the text written
  leaves what a complete one leaves, and the helpers below ignore the exception.)
\<close>

datatype write_fate = Completes | FailsToOpen | FailsAfter nat

definition write_text :: "write_fate \<Rightarrow> doc \<Rightarrow> pyval \<Rightarrow> (exn + unit) \<times> doc" where
  "write_text w old j =
     (case w of
        Completes \<Rightarrow> (Inr (), Json j)
      | FailsToOpen \<Rightarrow> (Inl OSError, old)
      | FailsAfter n \<Rightarrow> (Inl OSError, Corrupt))"

subsection \<open>Persistence helpers\<close>

definition load_shiny_history :: "doc \<Rightarrow> pyval" where
  "load_shiny_history d = (case read_json d of Inl e \<Rightarrow> PList [] | Inr v \<Rightarrow> v)"


text \<open>\<^verbatim>\<open>raw.get(key, default)\<close>: only a dictionary has the method.\<close>

definition py_get :: "pyval \<Rightarrow> string \<Rightarrow> pyval \<Rightarrow> exn + pyval" where
  "py_get raw key dflt =
     (case raw of
        PDict kvs \<Rightarrow> Inr (case dict_get kvs (PStr key) of Some v \<Rightarrow> v | None \<Rightarrow> dflt)
      | _ \<Rightarrow> Inl AttributeError)"

text \<open>
  \<^verbatim>\<open>set(x)\<close>: the elements of a list (all of them must be hashable), the code points of a
  string, the keys of a dictionary; anything else is not iterable.
\<close>

definition py_set :: "pyval \<Rightarrow> exn + pyval list" where
  "py_set x =
     (case x of
        PList xs \<Rightarrow>
          (if list_all (\<lambda>e. hash_key e \<noteq> None) xs then Inr (foldl set_add [] xs)
           else Inl TypeError)
      | PStr s \<Rightarrow> Inr (foldl set_add [] (map PStr (code_points s)))
      | PDict kvs \<Rightarrow> Inr (map fst kvs)
      | _ \<Rightarrow> Inl TypeError)"

text \<open>The body of the \<^verbatim>\<open>try\<close> of \<^verbatim>\<open>load_encounter_data\<close>, and the function with its handler.\<close>

definition load_encounter_try :: "doc \<Rightarrow> exn + (pyval \<times> pyval list \<times> pyval)" where
  "load_encounter_try d =
     (case read_json d of Inl e \<Rightarrow> Inl e | Inr raw \<Rightarrow>
      (case py_get raw ''names'' (PList []) of Inl e \<Rightarrow> Inl e | Inr names \<Rightarrow>
       (case py_get raw ''ids'' (PList []) of Inl e \<Rightarrow> Inl e | Inr idl \<Rightarrow>
        (case py_set idl of Inl e \<Rightarrow> Inl e | Inr ids \<Rightarrow>
         (case py_get raw ''names_by_id'' (PDict []) of Inl e \<Rightarrow> Inl e | Inr name_map \<Rightarrow>
            Inr (names, ids, name_map))))))"

definition load_encounter_data :: "doc \<Rightarrow> pyval \<times> pyval list \<times> pyval" where
  "load_encounter_data d =
     (case load_encounter_try d of Inl e \<Rightarrow> (PList [], [], PDict []) | Inr r \<Rightarrow> r)"

definition save_encounter_data :: "write_fate \<Rightarrow> doc \<Rightarrow> pyval \<Rightarrow> pyval list \<Rightarrow> pyval \<Rightarrow> doc" where
  "save_encounter_data w old names ids name_map =
     (case json_image (PDict [(PStr ''names'', names), (PStr ''ids'', PList ids),
                              (PStr ''names_by_id'', name_map)]) of
        None \<Rightarrow> old
      | Some j \<Rightarrow> snd (write_text w old j))"

section \<open>Strings\<close>

text \<open>
  The white space of \<^verbatim>\<open>str.strip\<close> and \<^verbatim>\<open>int\<close>: the code points U+0009 to U+000D, U+001C to
  U+0020, U+0085, U+00A0, U+1680, U+2000 to U+200A, U+2028, U+2029, U+202F, U+205F and
  U+3000, each given by its UTF-8 bytes.
\<close>

definition is_space :: "string \<Rightarrow> bool" where
  "is_space cp =
     (case map (of_char :: char \<Rightarrow> nat) cp of
        [b] \<Rightarrow> (9 \<le> b \<and> b \<le> 13) \<or> (28 \<le> b \<and> b \<le> 32)
      | [b1, b2] \<Rightarrow> b1 = 0xC2 \<and> (b2 = 0x85 \<or> b2 = 0xA0)
      | [b1, b2, b3] \<Rightarrow>
          (b1 = 0xE1 \<and> b2 = 0x9A \<and> b3 = 0x80)
          \<or> (b1 = 0xE2 \<and> b2 = 0x80 \<and> (0x80 \<le> b3 \<and> b3 \<le> 0x8A \<or> b3 = 0xA8 \<or> b3 = 0xA9 \<or> b3 = 0xAF))
          \<or> (b1 = 0xE2 \<and> b2 = 0x81 \<and> b3 = 0x9F)
          \<or> (b1 = 0xE3 \<and> b2 = 0x80 \<and> b3 = 0x80)
      | _ \<Rightarrow> False)"

definition strip_points :: "string list \<Rightarrow> string list" where
  "strip_points cps = rev (dropWhile is_space (rev (dropWhile is_space cps)))"

definition strip :: "string \<Rightarrow> string" where
  "strip s = concat (strip_points (code_points s))"

text \<open>\<^verbatim>\<open>s.replace(a, b)\<close> for single characters \<open>a\<close> and \<open>b\<close> of ASCII.\<close>

definition replace_char :: "char \<Rightarrow> char \<Rightarrow> string \<Rightarrow> string" where
  "replace_char a b s = map (\<lambda>c. if c = a then b else c) s"












section \<open>The viewer\<close>


text \<open>
  One cell of the dex grid: the text of its name label and the tool tip of its box (the
  pixmap is not modelled). The label under the card that tells how long ago the last
  shiny was met is one of four texts.
\<close>

record cell =
  name_lbl :: string
  tooltip :: string

datatype since_text = Blank | NoShinyYet | JustNow | OneMinute | Minutes int

text \<open>
  The state of \<^verbatim>\<open>PokedexViewer\<close> that the history and the grid depend on, together with the
  two documents on disk. \<open>last_shiny_time\<close> is a wall-clock reading in microseconds: the
  program subtracts two readings taken in the same time zone object, which Python does
  on the wall-clock values. A reading of the clock comes with the two texts that
  \<^verbatim>\<open>strftime\<close> makes of it.
\<close>

record viewer =
  shiny_history :: pyval
  encounters :: pyval
  encounter_ids :: "pyval list"
  id_to_name :: pyval
  last_shiny_time :: "int option"
  dex_cells :: "int \<rightharpoonup> cell"
  since_lbl :: since_text
  history_file :: doc
  encounter_log :: doc


subsection \<open>Operations on Python objects that the viewer uses\<close>

text \<open>\<^verbatim>\<open>obj.append(x)\<close>: of the values here only a list has the method.\<close>

definition py_append :: "pyval \<Rightarrow> pyval \<Rightarrow> exn + pyval" where
  "py_append obj x = (case obj of PList xs \<Rightarrow> Inr (PList (xs @ [x])) | _ \<Rightarrow> Inl AttributeError)"

text \<open>
  \<^verbatim>\<open>obj[i] = v\<close> for an integer \<open>i\<close>: a dictionary stores the item; a list replaces the
  element at that index (a negative index counts from the end) and raises outside its
  range; nothing else supports item assignment.
\<close>

definition py_setitem :: "pyval \<Rightarrow> int \<Rightarrow> pyval \<Rightarrow> exn + pyval" where
  "py_setitem obj i v =
     (case obj of
        PDict kvs \<Rightarrow> Inr (PDict (dict_set kvs (PInt i) v))
      | PList xs \<Rightarrow>
          (let n = int (length xs); j = (if i < 0 then i + n else i)
           in if 0 \<le> j \<and> j < n then Inr (PList (xs[nat j := v])) else Inl IndexError)
      | _ \<Rightarrow> Inl TypeError)"

text \<open>\<^verbatim>\<open>obj[key]\<close> for a string \<open>key\<close>: only a dictionary can be read that way.\<close>

definition py_getitem :: "pyval \<Rightarrow> string \<Rightarrow> exn + pyval" where
  "py_getitem obj key =
     (case obj of
        PDict kvs \<Rightarrow> (case dict_get kvs (PStr key) of None \<Rightarrow> Inl KeyError | Some v \<Rightarrow> Inr v)
      | _ \<Rightarrow> Inl TypeError)"



subsection \<open>Logging an encounter\<close>

text \<open>
  The first four lines of \<^verbatim>\<open>apply_card\<close>: the name is appended to the list of encounters,
  the id is added to the set, the name is stored under the id, and the three are saved.
  When a line raises, the slot ends there (\<open>Inl\<close>).
\<close>

definition record_encounter :: "write_fate \<Rightarrow> viewer \<Rightarrow> int \<Rightarrow> string \<Rightarrow> exn + viewer" where
  "record_encounter w s pid name =
     (case py_append (encounters s) (PStr name) of Inl e \<Rightarrow> Inl e | Inr names \<Rightarrow>
      (let ids = set_add (encounter_ids s) (PInt pid) in
       (case py_setitem (id_to_name s) pid (PStr name) of Inl e \<Rightarrow> Inl e | Inr name_map \<Rightarrow>
          Inr (s\<lparr>encounters := names, encounter_ids := ids, id_to_name := name_map,
                 encounter_log := save_encounter_data w (encounter_log s) names ids name_map\<rparr>))))"

subsection \<open>The time since the last shiny\<close>



subsection \<open>The dex grid\<close>

text \<open>\<^verbatim>\<open>pid in obj\<close> and \<^verbatim>\<open>obj[pid]\<close> for an integer \<open>pid\<close>, as \<^verbatim>\<open>_build_dex_grid\<close> uses them.\<close>

definition py_contains :: "pyval \<Rightarrow> int \<Rightarrow> exn + bool" where
  "py_contains obj pid =
     (case obj of
        PDict kvs \<Rightarrow> Inr (dict_get kvs (PInt pid) \<noteq> None)
      | PList xs \<Rightarrow> Inr (list_ex (\<lambda>x. hash_key x = Some (PInt pid)) xs)
      | _ \<Rightarrow> Inl TypeError)"

definition py_index :: "pyval \<Rightarrow> int \<Rightarrow> exn + pyval" where
  "py_index obj pid =
     (case obj of
        PDict kvs \<Rightarrow> (case dict_get kvs (PInt pid) of None \<Rightarrow> Inl KeyError | Some v \<Rightarrow> Inr v)
      | PList xs \<Rightarrow>
          (let n = int (length xs); j = (if pid < 0 then pid + n else pid)
           in if 0 \<le> j \<and> j < n then Inr (xs ! nat j) else Inl IndexError)
      | _ \<Rightarrow> Inl TypeError)"

definition blank_cell :: cell where
  "blank_cell = \<lparr>name_lbl = ''***'', tooltip = ''No shiny encountered yet.''\<rparr>"

text \<open>One round of the loop of \<^verbatim>\<open>_build_dex_grid\<close>: the cell of \<open>pid\<close>.\<close>

definition build_cell :: "pyval list \<Rightarrow> pyval \<Rightarrow> int \<Rightarrow> exn + cell" where
  "build_cell ids name_map pid =
     (if set_contains ids (PInt pid) then
        (case py_contains name_map pid of
           Inl e \<Rightarrow> Inl e
         | Inr False \<Rightarrow> Inr blank_cell
         | Inr True \<Rightarrow>
             (case py_index name_map pid of
                Inl e \<Rightarrow> Inl e
              | Inr (PStr n) \<Rightarrow> Inr (blank_cell\<lparr>name_lbl := n\<rparr>)
              | Inr _ \<Rightarrow> Inl TypeError))
      else Inr blank_cell)"









subsection \<open>Start and card\<close>




text \<open>A sequence of logged encounters, each with the fate of its write.\<close>

fun record_all :: "viewer \<Rightarrow> (write_fate \<times> int \<times> string) list \<Rightarrow> exn + viewer" where
  "record_all s [] = Inr s"
| "record_all s ((w, pid, name) # calls) =
     (case record_encounter w s pid name of Inl e \<Rightarrow> Inl e | Inr s' \<Rightarrow> record_all s' calls)"





section \<open>Fetching and generating\<close>

text \<open>
  The world outside the process, as \<^verbatim>\<open>fetch_json\<close> and \<^verbatim>\<open>get_pokemon\<close> meet it:
  \<^item> \<open>loads\<close> is \<^verbatim>\<open>json.loads\<close> (and \<^verbatim>\<open>Response.json\<close>, taken to read the body as its text
    reads): the value of a JSON text, \<open>None\<close> when the text is not JSON and the call raises;
  \<^item> \<open>http\<close> is \<^verbatim>\<open>requests.get\<close>: for a URL either an exception (no connection, a timeout,
    a malformed URL) or a response with its status code and its body;
  \<^item> \<open>fate\<close> tells how a write to a file of the cache directory would end.
  The files of the cache directory are a map from file name to content, and every call
  of \<open>http\<close> is logged in \<open>requested\<close>.
\<close>

datatype http_result = Raises exn | Response nat string

record env =
  loads :: "string \<Rightarrow> pyval option"
  http :: "pyval \<Rightarrow> http_result"
  fate :: "string \<Rightarrow> write_fate"

record world =
  files :: "string \<rightharpoonup> string"
  requested :: "pyval list"


text \<open>\<^verbatim>\<open>raise_for_status\<close> raises for the codes 400 to 599; \<^verbatim>\<open>Response.ok\<close> is true for all others.\<close>

definition error_status :: "nat \<Rightarrow> bool" where
  "error_status st = (400 \<le> st \<and> st < 600)"

text \<open>Writing a file of the cache directory: \<^verbatim>\<open>write_text\<close> and \<^verbatim>\<open>write_bytes\<close>.\<close>

definition write_file :: "write_fate \<Rightarrow> (string \<rightharpoonup> string) \<Rightarrow> string \<Rightarrow> string \<Rightarrow> (exn + unit) \<times> (string \<rightharpoonup> string)" where
  "write_file w fs path content =
     (case w of
        Completes \<Rightarrow> (Inr (), fs(path \<mapsto> content))
      | FailsToOpen \<Rightarrow> (Inl OSError, fs)
      | FailsAfter n \<Rightarrow> (Inl OSError, fs(path \<mapsto> take n content)))"

definition parse_json :: "env \<Rightarrow> string \<Rightarrow> exn + pyval" where
  "parse_json ev text = (case loads ev text of None \<Rightarrow> Inl JSONDecodeError | Some v \<Rightarrow> Inr v)"

definition fetch_json :: "env \<Rightarrow> world \<Rightarrow> string \<Rightarrow> string \<Rightarrow> (exn + pyval) \<times> world" where
  "fetch_json ev wd url cache_path =
     (case files wd cache_path of
        Some text \<Rightarrow> (parse_json ev text, wd)
      | None \<Rightarrow>
          (let wd1 = wd\<lparr>requested := requested wd @ [PStr url]\<rparr>
           in (case http ev (PStr url) of
                 Raises e \<Rightarrow> (Inl e, wd1)
               | Response st body \<Rightarrow>
                   (if error_status st then (Inl (HTTPError st), wd1)
                    else
                      (case write_file (fate ev cache_path) (files wd1) cache_path body of
                         (Inl e, fs) \<Rightarrow> (Inl e, wd1\<lparr>files := fs\<rparr>)
                       | (Inr u, fs) \<Rightarrow> (parse_json ev body, wd1\<lparr>files := fs\<rparr>))))))"

subsection \<open>The fields of a card\<close>






text \<open>
  \<^verbatim>\<open>[e["flavor_text"] for e in ... if e["language"]["name"] == "en"]\<close>: the condition is
  evaluated first, and the text is read only of an entry that passes it.
\<close>

definition entry_language :: "pyval \<Rightarrow> exn + pyval" where
  "entry_language e =
     (case py_getitem e ''language'' of Inl x \<Rightarrow> Inl x | Inr lang \<Rightarrow> py_getitem lang ''name'')"

fun english_entries :: "pyval list \<Rightarrow> exn + pyval list" where
  "english_entries [] = Inr []"
| "english_entries (e # es) =
     (case entry_language e of Inl x \<Rightarrow> Inl x | Inr n \<Rightarrow>
       (if n = PStr ''en'' then
          (case py_getitem e ''flavor_text'' of Inl x \<Rightarrow> Inl x | Inr t \<Rightarrow>
           (case english_entries es of Inl x \<Rightarrow> Inl x | Inr ts \<Rightarrow> Inr (t # ts)))
        else english_entries es))"

text \<open>
  The text of a chosen entry: \<^verbatim>\<open>.replace("\n", " ").replace("\f", " ").strip()\<close>, which
  only a string has.
\<close>

definition clean_text :: "string \<Rightarrow> string" where
  "clean_text s = strip (replace_char (CHR 0x0C) CHR '' '' (replace_char (CHR 0x0A) CHR '' '' s))"

text \<open>
  \<^verbatim>\<open>random.choice(entries)\<close> returns the entry at an index below \<^verbatim>\<open>len(entries)\<close> that the
  generator draws; the drawn index is the argument \<open>k\<close>.
\<close>

definition choose_flavor :: "pyval list \<Rightarrow> nat \<Rightarrow> exn + string" where
  "choose_flavor entries k =
     (if entries \<noteq> [] then
        (case entries ! k of PStr s \<Rightarrow> Inr (clean_text s) | _ \<Rightarrow> Inl AttributeError)
      else Inr ''(No flavor text found)'')"

text \<open>The truth value of an object in a condition.\<close>

fun truthy :: "pyval \<Rightarrow> bool" where
  "truthy PNone = False"
| "truthy (PBool b) = b"
| "truthy (PInt i) = (i \<noteq> 0)"
| "truthy (PStr s) = (s \<noteq> [])"
| "truthy (PList xs) = (xs \<noteq> [])"
| "truthy (PDict kvs) = (kvs \<noteq> [])"

text \<open>
  The download of the sprite at the end of \<^verbatim>\<open>get_pokemon\<close>: nothing is requested when
  there is no URL or the file is there already; a response that is not \<^verbatim>\<open>ok\<close> is dropped
  without a word, and only an exception of \<^verbatim>\<open>requests.get\<close> or of the write leaves the
  function.
\<close>

definition fetch_sprite :: "env \<Rightarrow> world \<Rightarrow> pyval \<Rightarrow> string \<Rightarrow> (exn + unit) \<times> world" where
  "fetch_sprite ev wd sprite_url sprite_path =
     (if truthy sprite_url \<and> files wd sprite_path = None then
        (let wd1 = wd\<lparr>requested := requested wd @ [sprite_url]\<rparr>
         in (case http ev sprite_url of
               Raises e \<Rightarrow> (Inl e, wd1)
             | Response st body \<Rightarrow>
                 (if \<not> error_status st then
                    (case write_file (fate ev sprite_path) (files wd1) sprite_path body of
                       (r, fs) \<Rightarrow> (r, wd1\<lparr>files := fs\<rparr>))
                  else (Inr (), wd1))))
      else (Inr (), wd))"










section \<open>The documents the program writes\<close>

text \<open>
  What \<^verbatim>\<open>save_encounter_data\<close> writes from a ledger that the program filled itself: an
  object with a list of strings under \<^verbatim>\<open>names\<close>, a list of integers under \<^verbatim>\<open>ids\<close> and an
  object of strings under \<^verbatim>\<open>names_by_id\<close>. And what \<^verbatim>\<open>save_shiny_history\<close> writes: a list
  of objects with the four strings \<^verbatim>\<open>dex\<close>, \<^verbatim>\<open>name\<close>, \<^verbatim>\<open>time\<close> and \<^verbatim>\<open>date\<close>. A document of any
  other content is one the program never wrote.
\<close>

definition is_str :: "pyval \<Rightarrow> bool" where
  "is_str v = (case v of PStr s \<Rightarrow> True | _ \<Rightarrow> False)"

definition is_int :: "pyval \<Rightarrow> bool" where
  "is_int v = (case v of PInt i \<Rightarrow> True | _ \<Rightarrow> False)"

definition ledger_document :: "pyval \<Rightarrow> bool" where
  "ledger_document v =
     (case v of
        PDict kvs \<Rightarrow>
          (case (dict_get kvs (PStr ''names''), dict_get kvs (PStr ''ids''),
                 dict_get kvs (PStr ''names_by_id'')) of
             (Some (PList names), Some (PList ids), Some (PDict name_map)) \<Rightarrow>
               list_all is_str names \<and> list_all is_int ids
               \<and> list_all (\<lambda>kv. is_str (fst kv) \<and> is_str (snd kv)) name_map
           | _ \<Rightarrow> False)
      | _ \<Rightarrow> False)"

definition shiny_entry :: "pyval \<Rightarrow> bool" where
  "shiny_entry v =
     (case v of
        PDict kvs \<Rightarrow>
          list_all (\<lambda>key. case dict_get kvs (PStr key) of Some (PStr s) \<Rightarrow> True | _ \<Rightarrow> False)
            [''dex'', ''name'', ''time'', ''date'']
      | _ \<Rightarrow> False)"

definition history_document :: "pyval \<Rightarrow> bool" where
  "history_document v = (case v of PList entries \<Rightarrow> list_all shiny_entry entries | _ \<Rightarrow> False)"

section \<open>Properties\<close>

subsection \<open>Dictionaries and sets\<close>

lemma dict_get_set:
  "dict_get (dict_set kvs k v) k' = (if hash_key k = hash_key k' then Some v else dict_get kvs k')"
  by (induction kvs) auto

lemma set_add_ints:
  "set xs \<subseteq> range PInt \<Longrightarrow> set (set_add xs (PInt p)) = insert (PInt p) (set xs)"
  by (auto simp: set_add_def set_contains_def image_iff)

lemma distinct_set_add:
  "set xs \<subseteq> range PInt \<Longrightarrow> distinct xs \<Longrightarrow> distinct (set_add xs (PInt p))"
  by (auto simp: set_add_def set_contains_def image_iff)

subsection \<open>The ledger after a sequence of encounters\<close>

lemma record_encounter_step:
  assumes "encounters s = PList xs" "id_to_name s = PDict kvs"
  shows "record_encounter w s pid name =
     Inr (s\<lparr>encounters := PList (xs @ [PStr name]),
            encounter_ids := set_add (encounter_ids s) (PInt pid),
            id_to_name := PDict (dict_set kvs (PInt pid) (PStr name)),
            encounter_log := save_encounter_data w (encounter_log s) (PList (xs @ [PStr name]))
              (set_add (encounter_ids s) (PInt pid)) (PDict (dict_set kvs (PInt pid) (PStr name)))\<rparr>)"
  using assms by (simp add: record_encounter_def py_append_def py_setitem_def Let_def)

lemma record_all_general:
  assumes "encounters s = PList xs" "id_to_name s = PDict kvs"
    "set (encounter_ids s) \<subseteq> range PInt" "distinct (encounter_ids s)"
  shows "\<exists>s' kvs'. record_all s calls = Inr s'
      \<and> encounters s' = PList (xs @ map (\<lambda>c. PStr (snd (snd c))) calls)
      \<and> set (encounter_ids s') = set (encounter_ids s) \<union> (\<lambda>c. PInt (fst (snd c))) ` set calls
      \<and> distinct (encounter_ids s')
      \<and> id_to_name s' = PDict kvs'
      \<and> (\<forall>pid. dict_get kvs' (PInt pid) =
            (case map_of (rev (map snd calls)) pid of
               Some n \<Rightarrow> Some (PStr n) | None \<Rightarrow> dict_get kvs (PInt pid)))"
  using assms
proof (induction calls arbitrary: s xs kvs)
  case Nil
  then show ?case by simp
next
  case (Cons c calls)
  obtain w pid name where c: "c = (w, pid, name)" by (cases c) auto
  define s1 where "s1 = s\<lparr>encounters := PList (xs @ [PStr name]),
      encounter_ids := set_add (encounter_ids s) (PInt pid),
      id_to_name := PDict (dict_set kvs (PInt pid) (PStr name)),
      encounter_log := save_encounter_data w (encounter_log s) (PList (xs @ [PStr name]))
         (set_add (encounter_ids s) (PInt pid)) (PDict (dict_set kvs (PInt pid) (PStr name)))\<rparr>"
  have step: "record_encounter w s pid name = Inr s1"
    unfolding s1_def using Cons.prems(1,2) by (rule record_encounter_step)
  have a: "encounters s1 = PList (xs @ [PStr name])" by (simp add: s1_def)
  have b: "id_to_name s1 = PDict (dict_set kvs (PInt pid) (PStr name))" by (simp add: s1_def)
  have ids: "encounter_ids s1 = set_add (encounter_ids s) (PInt pid)" by (simp add: s1_def)
  have c1: "set (encounter_ids s1) \<subseteq> range PInt"
    using Cons.prems(3) by (simp add: ids set_add_ints)
  have d1: "distinct (encounter_ids s1)"
    using Cons.prems(3,4) by (simp add: ids distinct_set_add)
  from Cons.IH[OF a b c1 d1] obtain s' kvs' where
    r: "record_all s1 calls = Inr s'" and
    e: "encounters s' = PList ((xs @ [PStr name]) @ map (\<lambda>c. PStr (snd (snd c))) calls)" and
    i: "set (encounter_ids s') = set (encounter_ids s1) \<union> (\<lambda>c. PInt (fst (snd c))) ` set calls" and
    d: "distinct (encounter_ids s')" and
    m: "id_to_name s' = PDict kvs'" and
    l: "\<forall>p. dict_get kvs' (PInt p) =
            (case map_of (rev (map snd calls)) p of
               Some n \<Rightarrow> Some (PStr n)
             | None \<Rightarrow> dict_get (dict_set kvs (PInt pid) (PStr name)) (PInt p))"
    by blast
  have "record_all s (c # calls) = Inr s'" using step r by (simp add: c)
  moreover have "encounters s' = PList (xs @ map (\<lambda>c. PStr (snd (snd c))) (c # calls))"
    using e by (simp add: c)
  moreover have "set (encounter_ids s') =
      set (encounter_ids s) \<union> (\<lambda>c. PInt (fst (snd c))) ` set (c # calls)"
    using i Cons.prems(3) by (simp add: ids set_add_ints c)
  moreover have "\<forall>p. dict_get kvs' (PInt p) =
            (case map_of (rev (map snd (c # calls))) p of
               Some n \<Rightarrow> Some (PStr n) | None \<Rightarrow> dict_get kvs (PInt p))"
    using l by (auto simp: c dict_get_set map_add_def split: option.splits)
  ultimately show ?case using d m by blast
qed

text \<open>
  Claim C1. Start from the empty ledger (no names, no ids, no names by id) and log any
  sequence of encounters, whatever the fate of each write. No call raises, and afterwards
  the list of names holds the names of the calls in order, so it is as long as the
  sequence; the set of ids holds exactly the ids of the calls; and the name stored under
  an id is the name of the latest call with that id (no name where no call had the id).
\<close>

theorem record_all_ledger:
  assumes "encounters s0 = PList []" and "encounter_ids s0 = []" and "id_to_name s0 = PDict []"
  shows "\<exists>s names kvs. record_all s0 calls = Inr s
      \<and> encounters s = PList names \<and> length names = length calls
      \<and> names = map (\<lambda>c. PStr (snd (snd c))) calls
      \<and> set (encounter_ids s) = (\<lambda>c. PInt (fst (snd c))) ` set calls
      \<and> distinct (encounter_ids s)
      \<and> id_to_name s = PDict kvs
      \<and> (\<forall>pid. dict_get kvs (PInt pid) = map_option PStr (map_of (rev (map snd calls)) pid))"
proof -
  have "set (encounter_ids s0) \<subseteq> range PInt" "distinct (encounter_ids s0)"
    using assms(2) by simp_all
  from record_all_general[OF assms(1) assms(3) this, of calls] obtain s kvs where
    r: "record_all s0 calls = Inr s" and
    e: "encounters s = PList ([] @ map (\<lambda>c. PStr (snd (snd c))) calls)" and
    i: "set (encounter_ids s) = set (encounter_ids s0) \<union> (\<lambda>c. PInt (fst (snd c))) ` set calls" and
    d: "distinct (encounter_ids s)" and
    m: "id_to_name s = PDict kvs" and
    l: "\<forall>p. dict_get kvs (PInt p) =
            (case map_of (rev (map snd calls)) p of
               Some n \<Rightarrow> Some (PStr n) | None \<Rightarrow> dict_get [] (PInt p))"
    by blast
  have l': "\<forall>p. dict_get kvs (PInt p) = map_option PStr (map_of (rev (map snd calls)) p)"
    using l by (auto split: option.splits)
  show ?thesis
    using r e i d m l' assms(2) by auto
qed

theorem record_all_ledger_witness:
  "\<exists>s names kvs.
     record_all
       \<lparr>shiny_history = PList [], encounters = PList [], encounter_ids = [],
        id_to_name = PDict [], last_shiny_time = None, dex_cells = Map.empty,
        since_lbl = Blank, history_file = Missing, encounter_log = Missing\<rparr>
       [(Completes, 25, ''Pikachu''), (FailsToOpen, 6, ''Charizard''), (Completes, 25, ''Pika'')]
       = Inr s
     \<and> encounters s = PList names \<and> length names = 3
     \<and> names = [PStr ''Pikachu'', PStr ''Charizard'', PStr ''Pika'']
     \<and> set (encounter_ids s) = {PInt 25, PInt 6}
     \<and> distinct (encounter_ids s)
     \<and> id_to_name s = PDict kvs
     \<and> dict_get kvs (PInt 25) = Some (PStr ''Pika'')
     \<and> dict_get kvs (PInt 6) = Some (PStr ''Charizard'')
     \<and> dict_get kvs (PInt 7) = None"
proof -
  let ?s0 = "\<lparr>shiny_history = PList [], encounters = PList [], encounter_ids = [],
        id_to_name = PDict [], last_shiny_time = None, dex_cells = Map.empty,
        since_lbl = Blank, history_file = Missing, encounter_log = Missing\<rparr>"
  let ?calls = "[(Completes, 25::int, ''Pikachu''), (FailsToOpen, 6, ''Charizard''), (Completes, 25, ''Pika'')]"
  from record_all_ledger[of ?s0 ?calls] obtain s names kvs where
    h: "record_all ?s0 ?calls = Inr s" "encounters s = PList names" "length names = length ?calls"
       "names = map (\<lambda>c. PStr (snd (snd c))) ?calls"
       "set (encounter_ids s) = (\<lambda>c. PInt (fst (snd c))) ` set ?calls"
       "distinct (encounter_ids s)" "id_to_name s = PDict kvs"
       "\<forall>pid. dict_get kvs (PInt pid) = map_option PStr (map_of (rev (map snd ?calls)) pid)"
    by auto
  have "dict_get kvs (PInt 25) = Some (PStr ''Pika'')" "dict_get kvs (PInt 6) = Some (PStr ''Charizard'')"
    "dict_get kvs (PInt 7) = None"
    using h(8) by simp_all
  moreover have "set (encounter_ids s) = {PInt 25, PInt 6}" using h(5) by auto
  ultimately show ?thesis using h by auto
qed

subsection \<open>What a save writes\<close>

lemma those_json_scalars:
  "\<forall>x\<in>set xs. is_str x \<or> is_int x \<Longrightarrow> those (map json_image xs) = Some xs"
proof (induction xs)
  case Nil
  then show ?case by simp
next
  case (Cons x xs)
  then have "json_image x = Some x" by (cases x) (simp_all add: is_str_def is_int_def)
  then show ?case using Cons by simp
qed

lemma json_items_strings:
  assumes "\<forall>kv\<in>set kvs. (is_str (fst kv) \<or> is_int (fst kv)) \<and> is_str (snd kv)"
  shows "\<exists>ps. json_items (map (\<lambda>kv. (json_key (fst kv), json_image (snd kv))) kvs) = Some ps
     \<and> (\<forall>kv\<in>set ps. is_str (fst kv) \<and> is_str (snd kv))"
  using assms
proof (induction kvs)
  case Nil
  then show ?case by simp
next
  case (Cons kv kvs)
  obtain k v where kv: "kv = (k, v)" by (cases kv) auto
  from Cons.prems kv obtain s where s: "json_key k = Some s"
    by (cases k) (auto simp: is_str_def is_int_def)
  from Cons.prems kv have v: "json_image v = Some v" "is_str v"
    by (cases v; simp add: is_str_def)+
  from Cons.IH Cons.prems obtain ps where
    ps: "json_items (map (\<lambda>kv. (json_key (fst kv), json_image (snd kv))) kvs) = Some ps"
      "\<forall>kv\<in>set ps. is_str (fst kv) \<and> is_str (snd kv)"
    by auto
  have "json_items (map (\<lambda>kv. (json_key (fst kv), json_image (snd kv))) (kv # kvs))
      = Some ((PStr s, v) # ps)"
    using s v ps by (simp add: kv)
  moreover have "\<forall>kv\<in>set ((PStr s, v) # ps). is_str (fst kv) \<and> is_str (snd kv)"
    using ps(2) v(2) by (simp add: is_str_def)
  ultimately show ?case by blast
qed

lemma dict_set_items:
  "kv \<in> set (dict_set d k v) \<Longrightarrow>
     kv \<in> set d \<or> kv = (k, v) \<or> (snd kv = v \<and> fst kv \<in> fst ` set d)"
  by (induction d) (auto split: if_splits)

lemma dict_set_strings:
  assumes "\<forall>kv\<in>set d. is_str (fst kv) \<and> is_str (snd kv)" and "is_str k" and "is_str v"
  shows "\<forall>kv\<in>set (dict_set d k v). is_str (fst kv) \<and> is_str (snd kv)"
proof
  fix kv assume "kv \<in> set (dict_set d k v)"
  then consider "kv \<in> set d" | "kv = (k, v)" | "snd kv = v \<and> fst kv \<in> fst ` set d"
    using dict_set_items by blast
  then show "is_str (fst kv) \<and> is_str (snd kv)"
  proof cases
    case 1
    then show ?thesis using assms(1) by blast
  next
    case 2
    then show ?thesis using assms(2,3) by simp
  next
    case 3
    then obtain kv' where "kv' \<in> set d" "fst kv = fst kv'" by auto
    then show ?thesis using 3 assms(1,3) by auto
  qed
qed

lemma json_image_ledger:
  assumes "json_image a = Some a'" and "json_image b = Some b'" and "json_image c = Some c'"
  shows "json_image (PDict [(PStr ''names'', a), (PStr ''ids'', b), (PStr ''names_by_id'', c)])
     = Some (PDict [(PStr ''names'', a'), (PStr ''ids'', b'), (PStr ''names_by_id'', c')])"
  using assms by simp

lemma fold_dict_set_strings:
  "\<forall>kv\<in>set ps. is_str (fst kv) \<and> is_str (snd kv) \<Longrightarrow>
   \<forall>kv\<in>set d. is_str (fst kv) \<and> is_str (snd kv) \<Longrightarrow>
     \<forall>kv\<in>set (fold (\<lambda>kv d. dict_set d (fst kv) (snd kv)) ps d). is_str (fst kv) \<and> is_str (snd kv)"
proof (induction ps arbitrary: d)
  case Nil
  then show ?case by simp
next
  case (Cons p ps)
  have p: "is_str (fst p)" "is_str (snd p)" using Cons.prems(1) by simp_all
  have d': "\<forall>kv\<in>set (dict_set d (fst p) (snd p)). is_str (fst kv) \<and> is_str (snd kv)"
    using Cons.prems(2) p by (rule dict_set_strings)
  have rest: "\<forall>kv\<in>set ps. is_str (fst kv) \<and> is_str (snd kv)" using Cons.prems(1) by simp
  have "\<forall>kv\<in>set (fold (\<lambda>kv d. dict_set d (fst kv) (snd kv)) ps (dict_set d (fst p) (snd p))).
      is_str (fst kv) \<and> is_str (snd kv)"
    using rest d' by (rule Cons.IH)
  then show ?case by simp
qed

text \<open>
  A ledger with strings for names, integers for ids and strings stored under integer or
  string keys is accepted by \<^verbatim>\<open>json.dumps\<close>, and what is written is a ledger document.
  Ledgers of that kind are the ones the program makes: the empty one, and the ones that
  \<open>record_encounter\<close> makes of them.
\<close>

lemma saved_ledger_is_document:
  assumes "\<forall>x\<in>set names. is_str x" and "\<forall>x\<in>set ids. is_int x"
    and "\<forall>kv\<in>set kvs. (is_str (fst kv) \<or> is_int (fst kv)) \<and> is_str (snd kv)"
  shows "\<exists>j. save_encounter_data Completes old (PList names) ids (PDict kvs) = Json j
     \<and> ledger_document j"
proof -
  have n: "json_image (PList names) = Some (PList names)"
    using assms(1) by (simp add: those_json_scalars)
  have i: "json_image (PList ids) = Some (PList ids)"
    using assms(2) by (simp add: those_json_scalars)
  from json_items_strings[OF assms(3)] obtain ps where
    ps: "json_items (map (\<lambda>kv. (json_key (fst kv), json_image (snd kv))) kvs) = Some ps"
      "\<forall>kv\<in>set ps. is_str (fst kv) \<and> is_str (snd kv)"
    by blast
  let ?m = "fold (\<lambda>kv d. dict_set d (fst kv) (snd kv)) ps []"
  have m: "json_image (PDict kvs) = Some (PDict ?m)" using ps(1) by simp
  have ms: "\<forall>kv\<in>set ?m. is_str (fst kv) \<and> is_str (snd kv)"
    using ps(2) by (rule fold_dict_set_strings) simp
  let ?j = "PDict [(PStr ''names'', PList names), (PStr ''ids'', PList ids),
                   (PStr ''names_by_id'', PDict ?m)]"
  have img: "json_image (PDict [(PStr ''names'', PList names), (PStr ''ids'', PList ids),
                              (PStr ''names_by_id'', PDict kvs)]) = Some ?j"
    using n i m by (rule json_image_ledger)
  have "save_encounter_data Completes old (PList names) ids (PDict kvs) = Json ?j"
    by (simp only: save_encounter_data_def img) (simp add: write_text_def)
  moreover have "ledger_document ?j"
    using assms(1,2) ms by (simp add: ledger_document_def list_all_iff)
  ultimately show ?thesis by blast
qed

subsection \<open>Loading a document\<close>

lemma load_encounter_try_unreadable:
  "load_encounter_try Missing = Inl OSError" "load_encounter_try Corrupt = Inl JSONDecodeError"
  by (simp_all add: load_encounter_try_def read_json_def)

lemma load_encounter_try_not_object:
  "\<forall>kvs. v \<noteq> PDict kvs \<Longrightarrow> load_encounter_try (Json v) = Inl AttributeError"
  by (cases v) (simp_all add: load_encounter_try_def read_json_def py_get_def)

text \<open>
  Claim C2, as the code has it. \<^verbatim>\<open>load_encounter_data\<close> returns the empty ledger for a
  document that is missing, for one whose text is not JSON (a document cut short is of
  that kind) and for JSON that is not an object; in general it returns the empty ledger
  whenever a line of its body raises, so that no exception leaves it.
  \<^verbatim>\<open>load_shiny_history\<close> returns the empty list for a document that is missing or not
  JSON. Neither function checks what a JSON document holds beyond that: the history is
  whatever value the document holds, and the three parts of the ledger are whatever the
  object holds under their keys.
\<close>

theorem load_degrades_to_empty:
  "(d = Missing \<or> d = Corrupt \<longrightarrow>
      load_encounter_data d = (PList [], [], PDict []) \<and> load_shiny_history d = PList [])
   \<and> ((\<exists>v. d = Json v \<and> (\<forall>kvs. v \<noteq> PDict kvs)) \<longrightarrow>
      load_encounter_data d = (PList [], [], PDict []))
   \<and> ((\<exists>e. load_encounter_try d = Inl e) \<longrightarrow>
      load_encounter_data d = (PList [], [], PDict []))
   \<and> (\<forall>v. d = Json v \<longrightarrow> load_shiny_history d = v)
   \<and> (\<forall>kvs. d = Json (PDict kvs) \<and> list_all (\<lambda>x. hash_key x \<noteq> None) ids
         \<and> dict_get kvs (PStr ''names'') = Some names
         \<and> dict_get kvs (PStr ''ids'') = Some (PList ids)
         \<and> dict_get kvs (PStr ''names_by_id'') = Some name_map \<longrightarrow>
      load_encounter_data d = (names, foldl set_add [] ids, name_map))"
proof (intro conjI impI allI)
  assume "d = Missing \<or> d = Corrupt"
  then show "load_encounter_data d = (PList [], [], PDict [])"
    by (auto simp: load_encounter_data_def load_encounter_try_unreadable)
next
  assume "d = Missing \<or> d = Corrupt"
  then show "load_shiny_history d = PList []"
    by (auto simp: load_shiny_history_def read_json_def)
next
  assume "\<exists>v. d = Json v \<and> (\<forall>kvs. v \<noteq> PDict kvs)"
  then show "load_encounter_data d = (PList [], [], PDict [])"
    by (auto simp: load_encounter_data_def load_encounter_try_not_object)
next
  assume "\<exists>e. load_encounter_try d = Inl e"
  then show "load_encounter_data d = (PList [], [], PDict [])"
    by (auto simp: load_encounter_data_def)
next
  fix v assume "d = Json v"
  then show "load_shiny_history d = v"
    by (simp add: load_shiny_history_def read_json_def)
next
  fix kvs
  assume "d = Json (PDict kvs) \<and> list_all (\<lambda>x. hash_key x \<noteq> None) ids
         \<and> dict_get kvs (PStr ''names'') = Some names
         \<and> dict_get kvs (PStr ''ids'') = Some (PList ids)
         \<and> dict_get kvs (PStr ''names_by_id'') = Some name_map"
  then show "load_encounter_data d = (names, foldl set_add [] ids, name_map)"
    by (simp add: load_encounter_data_def load_encounter_try_def read_json_def py_get_def py_set_def)
qed

theorem load_degrades_to_empty_witness:
  "load_encounter_data Corrupt = (PList [], [], PDict [])
   \<and> load_shiny_history Corrupt = PList []
   \<and> load_encounter_data (Json (PList [PInt 1])) = (PList [], [], PDict [])
   \<and> load_encounter_data (Json (PDict [(PStr ''ids'', PInt 7)])) = (PList [], [], PDict [])
   \<and> load_shiny_history (Json (PInt 5)) = PInt 5
   \<and> load_encounter_data
        (Json (PDict [(PStr ''names'', PList [PStr ''Pikachu'']), (PStr ''ids'', PList [PInt 25]),
                      (PStr ''names_by_id'', PDict [(PStr ''25'', PStr ''Pikachu'')])]))
      = (PList [PStr ''Pikachu''], [PInt 25], PDict [(PStr ''25'', PStr ''Pikachu'')])"
proof -
  have a: "load_encounter_data Corrupt = (PList [], [], PDict []) \<and> load_shiny_history Corrupt = PList []"
    using load_degrades_to_empty[of Corrupt] by simp
  have b: "load_encounter_data (Json (PList [PInt 1])) = (PList [], [], PDict [])"
    using load_degrades_to_empty[of "Json (PList [PInt 1])"] by simp
  have "load_encounter_try (Json (PDict [(PStr ''ids'', PInt 7)])) = Inl TypeError"
    by (simp add: load_encounter_try_def read_json_def py_get_def py_set_def)
  then have c: "load_encounter_data (Json (PDict [(PStr ''ids'', PInt 7)])) = (PList [], [], PDict [])"
    using load_degrades_to_empty[of "Json (PDict [(PStr ''ids'', PInt 7)])"] by simp
  have d: "load_shiny_history (Json (PInt 5)) = PInt 5"
    using load_degrades_to_empty[of "Json (PInt 5)"] by simp
  have e: "load_encounter_data
        (Json (PDict [(PStr ''names'', PList [PStr ''Pikachu'']), (PStr ''ids'', PList [PInt 25]),
                      (PStr ''names_by_id'', PDict [(PStr ''25'', PStr ''Pikachu'')])]))
      = (PList [PStr ''Pikachu''], foldl set_add [] [PInt 25], PDict [(PStr ''25'', PStr ''Pikachu'')])"
    using load_degrades_to_empty[of
        "Json (PDict [(PStr ''names'', PList [PStr ''Pikachu'']), (PStr ''ids'', PList [PInt 25]),
                      (PStr ''names_by_id'', PDict [(PStr ''25'', PStr ''Pikachu'')])])"
        "[PInt 25]" "PList [PStr ''Pikachu'']" "PDict [(PStr ''25'', PStr ''Pikachu'')]"]
    by simp
  have f: "foldl set_add [] [PInt 25] = [PInt 25]"
    by (simp add: set_add_def set_contains_def)
  show ?thesis using a b c d e f by simp
qed

text \<open>
  The claim as it stands fails: a document that holds a number where the list of names
  belongs is not one the program writes, yet it is loaded as a ledger whose names are
  that number; and a shiny-history document that holds an object is returned as that
  object, not as the empty list.
\<close>

theorem load_keeps_wrong_shape:
  "\<not> ledger_document (PDict [(PStr ''names'', PInt 5)])
   \<and> load_encounter_data (Json (PDict [(PStr ''names'', PInt 5)])) = (PInt 5, [], PDict [])
   \<and> \<not> history_document (PDict [(PStr ''dex'', PInt 1)])
   \<and> load_shiny_history (Json (PDict [(PStr ''dex'', PInt 1)])) = PDict [(PStr ''dex'', PInt 1)]"
  by (simp add: ledger_document_def history_document_def load_encounter_data_def
      load_encounter_try_def load_shiny_history_def read_json_def py_get_def py_set_def)

subsection \<open>Saving and loading again\<close>

text \<open>
  Claim C3 fails on the code. Log one encounter, Pikachu with id 25, from the empty
  ledger and let the write complete. Loading the document gives back the names and the
  ids, but the name is now stored under the string \<^verbatim>\<open>"25"\<close>, not under the integer 25:
  the loaded ledger has no name for the id 25. \<^verbatim>\<open>_build_dex_grid\<close>, which looks the names
  up by the integer id, shows the name from the ledger in memory and leaves the cell
  without its name from the ledger loaded back.
\<close>

theorem roundtrip_loses_integer_keys:
  "record_all
       \<lparr>shiny_history = PList [], encounters = PList [], encounter_ids = [],
        id_to_name = PDict [], last_shiny_time = None, dex_cells = Map.empty,
        since_lbl = Blank, history_file = Missing, encounter_log = Missing\<rparr>
       [(Completes, 25, ''Pikachu'')]
     = Inr \<lparr>shiny_history = PList [], encounters = PList [PStr ''Pikachu''],
            encounter_ids = [PInt 25], id_to_name = PDict [(PInt 25, PStr ''Pikachu'')],
            last_shiny_time = None, dex_cells = Map.empty, since_lbl = Blank,
            history_file = Missing,
            encounter_log = save_encounter_data Completes Missing (PList [PStr ''Pikachu''])
                              [PInt 25] (PDict [(PInt 25, PStr ''Pikachu'')])\<rparr>
   \<and> load_encounter_data
        (save_encounter_data Completes Missing (PList [PStr ''Pikachu'']) [PInt 25]
           (PDict [(PInt 25, PStr ''Pikachu'')]))
     = (PList [PStr ''Pikachu''], [PInt 25], PDict [(PStr ''25'', PStr ''Pikachu'')])
   \<and> py_index (PDict [(PInt 25, PStr ''Pikachu'')]) 25 = Inr (PStr ''Pikachu'')
   \<and> py_index (PDict [(PStr ''25'', PStr ''Pikachu'')]) 25 = Inl KeyError
   \<and> build_cell [PInt 25] (PDict [(PInt 25, PStr ''Pikachu'')]) 25
     = Inr \<lparr>name_lbl = ''Pikachu'', tooltip = ''No shiny encountered yet.''\<rparr>
   \<and> build_cell [PInt 25] (PDict [(PStr ''25'', PStr ''Pikachu'')]) 25
     = Inr \<lparr>name_lbl = ''***'', tooltip = ''No shiny encountered yet.''\<rparr>"
proof -
  have img: "json_image (PDict [(PStr ''names'', PList [PStr ''Pikachu'']),
               (PStr ''ids'', PList [PInt 25]),
               (PStr ''names_by_id'', PDict [(PInt 25, PStr ''Pikachu'')])])
     = Some (PDict [(PStr ''names'', PList [PStr ''Pikachu'']), (PStr ''ids'', PList [PInt 25]),
               (PStr ''names_by_id'', PDict [(PStr ''25'', PStr ''Pikachu'')])])"
    by code_simp
  have "record_all
       \<lparr>shiny_history = PList [], encounters = PList [], encounter_ids = [],
        id_to_name = PDict [], last_shiny_time = None, dex_cells = Map.empty,
        since_lbl = Blank, history_file = Missing, encounter_log = Missing\<rparr>
       [(Completes, 25, ''Pikachu'')]
     = Inr \<lparr>shiny_history = PList [], encounters = PList [PStr ''Pikachu''],
            encounter_ids = [PInt 25], id_to_name = PDict [(PInt 25, PStr ''Pikachu'')],
            last_shiny_time = None, dex_cells = Map.empty, since_lbl = Blank,
            history_file = Missing,
            encounter_log = save_encounter_data Completes Missing (PList [PStr ''Pikachu''])
                              [PInt 25] (PDict [(PInt 25, PStr ''Pikachu'')])\<rparr>"
    by (simp add: record_encounter_def py_append_def py_setitem_def set_add_def set_contains_def Let_def)
  moreover have "load_encounter_data
        (save_encounter_data Completes Missing (PList [PStr ''Pikachu'']) [PInt 25]
           (PDict [(PInt 25, PStr ''Pikachu'')]))
     = (PList [PStr ''Pikachu''], [PInt 25], PDict [(PStr ''25'', PStr ''Pikachu'')])"
    unfolding save_encounter_data_def img
    by (simp add: write_text_def load_encounter_data_def load_encounter_try_def read_json_def
        py_get_def py_set_def set_add_def set_contains_def)
  moreover have "py_index (PDict [(PInt 25, PStr ''Pikachu'')]) 25 = Inr (PStr ''Pikachu'')"
    "py_index (PDict [(PStr ''25'', PStr ''Pikachu'')]) 25 = Inl KeyError"
    by (simp_all add: py_index_def)
  moreover have "build_cell [PInt 25] (PDict [(PInt 25, PStr ''Pikachu'')]) 25
     = Inr \<lparr>name_lbl = ''Pikachu'', tooltip = ''No shiny encountered yet.''\<rparr>"
    "build_cell [PInt 25] (PDict [(PStr ''25'', PStr ''Pikachu'')]) 25
     = Inr \<lparr>name_lbl = ''***'', tooltip = ''No shiny encountered yet.''\<rparr>"
    by (simp_all add: build_cell_def set_contains_def py_contains_def py_index_def blank_cell_def)
  ultimately show ?thesis by simp
qed

subsection \<open>A write that fails\<close>




subsection \<open>The dex grid and the replay of the shiny history\<close>











subsection \<open>Reading back a dex label\<close>























subsection \<open>The time of the last shiny\<close>













subsection \<open>The cache of fetched documents\<close>

lemma fetch_json_hit:
  "files wd cache_path = Some text \<Longrightarrow> fetch_json ev wd url cache_path = (parse_json ev text, wd)"
  by (simp add: fetch_json_def)

lemma fetch_json_raises:
  "files wd cache_path = None \<Longrightarrow> http ev (PStr url) = Raises e \<Longrightarrow>
     fetch_json ev wd url cache_path = (Inl e, wd\<lparr>requested := requested wd @ [PStr url]\<rparr>)"
  by (simp add: fetch_json_def Let_def)

lemma fetch_json_status:
  "files wd cache_path = None \<Longrightarrow> http ev (PStr url) = Response st body \<Longrightarrow> error_status st \<Longrightarrow>
     fetch_json ev wd url cache_path = (Inl (HTTPError st), wd\<lparr>requested := requested wd @ [PStr url]\<rparr>)"
  by (simp add: fetch_json_def Let_def)

lemma fetch_json_stored:
  "files wd cache_path = None \<Longrightarrow> http ev (PStr url) = Response st body \<Longrightarrow> \<not> error_status st \<Longrightarrow>
   fate ev cache_path = Completes \<Longrightarrow>
     fetch_json ev wd url cache_path =
       (parse_json ev body,
        wd\<lparr>requested := requested wd @ [PStr url], files := (files wd)(cache_path \<mapsto> body)\<rparr>)"
  by (simp add: fetch_json_def Let_def write_file_def)

lemma fetch_json_requests:
  "files wd cache_path = None \<Longrightarrow>
     requested (snd (fetch_json ev wd url cache_path)) = requested wd @ [PStr url]"
  by (auto simp: fetch_json_def Let_def write_file_def split: http_result.splits write_fate.splits)

lemma fetch_json_writes:
  assumes "files (snd (fetch_json ev wd url cache_path)) \<noteq> files wd"
  shows "\<exists>st body. http ev (PStr url) = Response st body \<and> \<not> error_status st"
proof (cases "files wd cache_path")
  case (Some cached)
  then show ?thesis using assms by (simp add: fetch_json_hit)
next
  case None
  show ?thesis
  proof (cases "http ev (PStr url)")
    case (Raises e)
    then show ?thesis using assms None by (simp add: fetch_json_raises)
  next
    case (Response st body)
    then show ?thesis using assms None by (cases "error_status st") (simp_all add: fetch_json_status)
  qed
qed

lemma fetch_sprite_hit:
  "files wd sprite_path = Some content \<Longrightarrow> fetch_sprite ev wd sprite_url sprite_path = (Inr (), wd)"
  by (simp add: fetch_sprite_def)

lemma fetch_sprite_stored:
  "files wd sprite_path = None \<Longrightarrow> truthy sprite_url \<Longrightarrow>
   http ev sprite_url = Response st body \<Longrightarrow> \<not> error_status st \<Longrightarrow>
   fate ev sprite_path = Completes \<Longrightarrow>
     fetch_sprite ev wd sprite_url sprite_path =
       (Inr (), wd\<lparr>requested := requested wd @ [sprite_url], files := (files wd)(sprite_path \<mapsto> body)\<rparr>)"
  by (simp add: fetch_sprite_def Let_def write_file_def)

text \<open>
  Claim C6. When the cache holds a file for the key, \<^verbatim>\<open>fetch_json\<close> returns what the file
  holds and requests nothing: the world is unchanged. When it holds none, exactly one
  request is made, whatever its outcome. When that request is answered with a status
  that is not an error and the write completes, the file holds the body as it came, the
  result is the value of that body, and any later call for the same key, of whatever
  URL and in whatever environment, returns the value of the stored body and leaves the
  world, and so the list of requests, unchanged. The sprite files behave alike: a
  sprite that is there is not requested, and one that was downloaded and written is
  stored as it came and not requested again.
\<close>

theorem fetch_json_cache:
  "(files wd cache_path = Some text \<longrightarrow>
      fetch_json ev wd url cache_path = (parse_json ev text, wd))
   \<and> (files wd cache_path = None \<longrightarrow>
      requested (snd (fetch_json ev wd url cache_path)) = requested wd @ [PStr url])
   \<and> (files wd cache_path = None \<and> http ev (PStr url) = Response st body \<and> \<not> error_status st
        \<and> fate ev cache_path = Completes \<longrightarrow>
      fst (fetch_json ev wd url cache_path) = parse_json ev body
      \<and> files (snd (fetch_json ev wd url cache_path)) = (files wd)(cache_path \<mapsto> body)
      \<and> (\<forall>ev' url'. fetch_json ev' (snd (fetch_json ev wd url cache_path)) url' cache_path
            = (parse_json ev' body, snd (fetch_json ev wd url cache_path))))
   \<and> (files wd cache_path = Some content \<longrightarrow>
      fetch_sprite ev wd sprite_url cache_path = (Inr (), wd))
   \<and> (files wd cache_path = None \<and> truthy sprite_url \<and> http ev sprite_url = Response st body
        \<and> \<not> error_status st \<and> fate ev cache_path = Completes \<longrightarrow>
      fetch_sprite ev wd sprite_url cache_path
        = (Inr (), wd\<lparr>requested := requested wd @ [sprite_url],
                     files := (files wd)(cache_path \<mapsto> body)\<rparr>)
      \<and> (\<forall>ev' url'. fetch_sprite ev'
              (wd\<lparr>requested := requested wd @ [sprite_url], files := (files wd)(cache_path \<mapsto> body)\<rparr>)
              url' cache_path
            = (Inr (), wd\<lparr>requested := requested wd @ [sprite_url],
                         files := (files wd)(cache_path \<mapsto> body)\<rparr>)))"
proof (intro conjI impI)
  assume "files wd cache_path = Some text"
  then show "fetch_json ev wd url cache_path = (parse_json ev text, wd)" by (rule fetch_json_hit)
next
  assume "files wd cache_path = None"
  then show "requested (snd (fetch_json ev wd url cache_path)) = requested wd @ [PStr url]"
    by (rule fetch_json_requests)
next
  assume a: "files wd cache_path = None \<and> http ev (PStr url) = Response st body \<and> \<not> error_status st
        \<and> fate ev cache_path = Completes"
  then have f: "fetch_json ev wd url cache_path =
       (parse_json ev body,
        wd\<lparr>requested := requested wd @ [PStr url], files := (files wd)(cache_path \<mapsto> body)\<rparr>)"
    by (simp add: fetch_json_stored)
  show "fst (fetch_json ev wd url cache_path) = parse_json ev body" by (simp add: f)
  show "files (snd (fetch_json ev wd url cache_path)) = (files wd)(cache_path \<mapsto> body)" by (simp add: f)
  show "\<forall>ev' url'. fetch_json ev' (snd (fetch_json ev wd url cache_path)) url' cache_path
            = (parse_json ev' body, snd (fetch_json ev wd url cache_path))"
    by (simp add: f fetch_json_hit)
next
  assume "files wd cache_path = Some content"
  then show "fetch_sprite ev wd sprite_url cache_path = (Inr (), wd)" by (rule fetch_sprite_hit)
next
  assume "files wd cache_path = None \<and> truthy sprite_url \<and> http ev sprite_url = Response st body
        \<and> \<not> error_status st \<and> fate ev cache_path = Completes"
  then show "fetch_sprite ev wd sprite_url cache_path
        = (Inr (), wd\<lparr>requested := requested wd @ [sprite_url],
                     files := (files wd)(cache_path \<mapsto> body)\<rparr>)"
    by (simp add: fetch_sprite_stored)
next
  show "\<forall>ev' url'. fetch_sprite ev'
              (wd\<lparr>requested := requested wd @ [sprite_url], files := (files wd)(cache_path \<mapsto> body)\<rparr>)
              url' cache_path
            = (Inr (), wd\<lparr>requested := requested wd @ [sprite_url],
                         files := (files wd)(cache_path \<mapsto> body)\<rparr>)"
    by (simp add: fetch_sprite_hit)
qed

theorem fetch_json_cache_witness:
  "fetch_json
      \<lparr>loads = (\<lambda>t. if t = ''{}'' then Some (PDict []) else None),
       http = (\<lambda>u. Response 200 ''{}''), fate = (\<lambda>p. Completes)\<rparr>
      \<lparr>files = Map.empty, requested = []\<rparr> ''https://pokeapi.co/api/v2/pokemon/1'' ''pokemon_1.json''
     = (Inr (PDict []),
        \<lparr>files = [''pokemon_1.json'' \<mapsto> ''{}''],
         requested = [PStr ''https://pokeapi.co/api/v2/pokemon/1'']\<rparr>)
   \<and> fetch_json
      \<lparr>loads = (\<lambda>t. if t = ''{}'' then Some (PDict []) else None),
       http = (\<lambda>u. Raises (RequestException ''offline'')), fate = (\<lambda>p. FailsToOpen)\<rparr>
      \<lparr>files = [''pokemon_1.json'' \<mapsto> ''{}''],
       requested = [PStr ''https://pokeapi.co/api/v2/pokemon/1'']\<rparr>
      ''https://pokeapi.co/api/v2/pokemon/1'' ''pokemon_1.json''
     = (Inr (PDict []),
        \<lparr>files = [''pokemon_1.json'' \<mapsto> ''{}''],
         requested = [PStr ''https://pokeapi.co/api/v2/pokemon/1'']\<rparr>)"
proof -
  let ?ev = "\<lparr>loads = (\<lambda>t. if t = ''{}'' then Some (PDict []) else None),
       http = (\<lambda>u. Response 200 ''{}''), fate = (\<lambda>p. Completes)\<rparr>"
  let ?ev' = "\<lparr>loads = (\<lambda>t. if t = ''{}'' then Some (PDict []) else None),
       http = (\<lambda>u. Raises (RequestException ''offline'')), fate = (\<lambda>p. FailsToOpen)\<rparr>"
  let ?wd = "\<lparr>files = Map.empty, requested = []\<rparr>"
  let ?url = "''https://pokeapi.co/api/v2/pokemon/1''"
  let ?r = "fetch_json ?ev ?wd ?url ''pokemon_1.json''"
  from fetch_json_cache[of ?wd "''pokemon_1.json''" "[]" ?ev ?url 200 "''{}''"]
  have a: "requested (snd ?r) = [PStr ?url]"
    and b: "fst ?r = parse_json ?ev ''{}''"
    and c: "files (snd ?r) = [''pokemon_1.json'' \<mapsto> ''{}'']"
    and d: "fetch_json ?ev' (snd ?r) ?url ''pokemon_1.json'' = (parse_json ?ev' ''{}'', snd ?r)"
    by (simp_all add: error_status_def)
  have w: "snd ?r = \<lparr>files = [''pokemon_1.json'' \<mapsto> ''{}''], requested = [PStr ?url]\<rparr>"
    using a c by (cases "snd ?r") simp
  have p: "parse_json ?ev ''{}'' = Inr (PDict [])" "parse_json ?ev' ''{}'' = Inr (PDict [])"
    by (simp_all add: parse_json_def)
  have "?r = (Inr (PDict []), \<lparr>files = [''pokemon_1.json'' \<mapsto> ''{}''], requested = [PStr ?url]\<rparr>)"
    using b w p by (cases ?r) simp
  then show ?thesis using d w p by simp
qed

text \<open>
  Claim C7. For a key that the cache does not hold: when the request raises, that same
  exception leaves \<^verbatim>\<open>fetch_json\<close>, and when the response has an error status,
  \<^verbatim>\<open>raise_for_status\<close> raises for that status; in both cases the files of the cache are
  what they were, so no entry was made. And whenever a call changes the files at all,
  the request was answered with a status that is not an error.
\<close>

theorem fetch_json_failure:
  assumes "files wd cache_path = None"
  shows "(http ev (PStr url) = Raises e \<longrightarrow>
        fetch_json ev wd url cache_path = (Inl e, wd\<lparr>requested := requested wd @ [PStr url]\<rparr>)
        \<and> files (snd (fetch_json ev wd url cache_path)) = files wd)
     \<and> (http ev (PStr url) = Response st body \<and> error_status st \<longrightarrow>
        fetch_json ev wd url cache_path
          = (Inl (HTTPError st), wd\<lparr>requested := requested wd @ [PStr url]\<rparr>)
        \<and> files (snd (fetch_json ev wd url cache_path)) = files wd)
     \<and> (files (snd (fetch_json ev wd url cache_path)) \<noteq> files wd \<longrightarrow>
        (\<exists>st' body'. http ev (PStr url) = Response st' body' \<and> \<not> error_status st'))"
  using assms fetch_json_writes[of ev wd url cache_path]
  by (auto simp: fetch_json_raises fetch_json_status)

theorem fetch_json_failure_witness:
  "fetch_json
      \<lparr>loads = (\<lambda>t. if t = ''{}'' then Some (PDict []) else None),
       http = (\<lambda>u. Raises (RequestException ''offline'')), fate = (\<lambda>p. Completes)\<rparr>
      \<lparr>files = Map.empty, requested = []\<rparr> ''https://pokeapi.co/api/v2/pokemon/1'' ''pokemon_1.json''
     = (Inl (RequestException ''offline''),
        \<lparr>files = Map.empty, requested = [PStr ''https://pokeapi.co/api/v2/pokemon/1'']\<rparr>)
   \<and> fetch_json
      \<lparr>loads = (\<lambda>t. if t = ''{}'' then Some (PDict []) else None),
       http = (\<lambda>u. Response 503 ''{}''), fate = (\<lambda>p. Completes)\<rparr>
      \<lparr>files = Map.empty, requested = []\<rparr> ''https://pokeapi.co/api/v2/pokemon/1'' ''pokemon_1.json''
     = (Inl (HTTPError 503),
        \<lparr>files = Map.empty, requested = [PStr ''https://pokeapi.co/api/v2/pokemon/1'']\<rparr>)"
proof -
  let ?wd = "\<lparr>files = Map.empty, requested = []\<rparr>"
  let ?url = "''https://pokeapi.co/api/v2/pokemon/1''"
  have n: "files ?wd ''pokemon_1.json'' = None" by simp
  from fetch_json_failure[OF n,
      of "\<lparr>loads = (\<lambda>t. if t = ''{}'' then Some (PDict []) else None),
       http = (\<lambda>u. Raises (RequestException ''offline'')), fate = (\<lambda>p. Completes)\<rparr>"
      ?url "RequestException ''offline''"]
    fetch_json_failure[OF n,
      of "\<lparr>loads = (\<lambda>t. if t = ''{}'' then Some (PDict []) else None),
       http = (\<lambda>u. Response 503 ''{}''), fate = (\<lambda>p. Completes)\<rparr>"
      ?url _ 503 "''{}''"]
  show ?thesis by (simp add: error_status_def)
qed

subsection \<open>A generation that fails\<close>











subsection \<open>The flavour text\<close>

lemma concat_code_points: "concat (code_points s) = s"
  by (induction s rule: code_points.induct) simp_all

lemma strip_points_shape:
  "\<exists>pre post. cps = pre @ strip_points cps @ post \<and> list_all is_space pre \<and> list_all is_space post
     \<and> (strip_points cps \<noteq> [] \<longrightarrow>
          \<not> is_space (hd (strip_points cps)) \<and> \<not> is_space (last (strip_points cps)))"
proof -
  let ?d = "dropWhile is_space cps"
  let ?m = "strip_points cps"
  have m: "?m = rev (dropWhile is_space (rev ?d))" by (simp add: strip_points_def)
  have a: "cps = takeWhile is_space cps @ ?d" by simp
  have "?m @ rev (takeWhile is_space (rev ?d))
      = rev (takeWhile is_space (rev ?d) @ dropWhile is_space (rev ?d))"
    by (simp only: m rev_append)
  also have "\<dots> = rev (rev ?d)" by (simp only: takeWhile_dropWhile_id)
  also have "\<dots> = ?d" by (simp only: rev_rev_ident)
  finally have b: "?d = ?m @ rev (takeWhile is_space (rev ?d))" by (rule sym)
  have pre: "list_all is_space (takeWhile is_space cps)"
    by (simp add: list_all_iff) (meson set_takeWhileD)
  have post: "list_all is_space (rev (takeWhile is_space (rev ?d)))"
    by (simp add: list_all_iff) (meson set_takeWhileD)
  have ends: "\<not> is_space (hd ?m) \<and> \<not> is_space (last ?m)" if ne: "?m \<noteq> []"
  proof -
    have dne: "?d \<noteq> []"
    proof
      assume "?d = []"
      then have "?m = []" by (simp only: m) simp
      then show False using ne by simp
    qed
    have "hd ?m = hd ?d" using ne b by (metis hd_append2)
    moreover have "\<not> is_space (hd ?d)" using dne by (rule hd_dropWhile)
    moreover have "last ?m = hd (dropWhile is_space (rev ?d))"
      using ne by (simp add: m last_rev)
    moreover have "\<not> is_space (hd (dropWhile is_space (rev ?d)))"
      using ne m by (intro hd_dropWhile) auto
    ultimately show ?thesis by simp
  qed
  have "cps = takeWhile is_space cps @ ?m @ rev (takeWhile is_space (rev ?d))"
    using a b by metis
  then show ?thesis using pre post ends by blast
qed

lemma replace_twice:
  "replace_char (CHR 0x0C) CHR '' '' (replace_char (CHR 0x0A) CHR '' '' s)
     = map (\<lambda>c. if c = CHR 0x0A \<or> c = CHR 0x0C then CHR '' '' else c) s"
  by (simp add: replace_char_def)

lemma english_entries_filter:
  assumes "\<forall>e\<in>set es. (\<exists>n. entry_language e = Inr n)
      \<and> (entry_language e = Inr (PStr ''en'') \<longrightarrow> (\<exists>t. py_getitem e ''flavor_text'' = Inr t))"
  shows "english_entries es =
     Inr (map (\<lambda>e. projr (py_getitem e ''flavor_text''))
            (filter (\<lambda>e. entry_language e = Inr (PStr ''en'')) es))"
  using assms
proof (induction es)
  case Nil
  then show ?case by simp
next
  case (Cons e es)
  from Cons.prems obtain n where n: "entry_language e = Inr n" by auto
  have ih: "english_entries es =
     Inr (map (\<lambda>e. projr (py_getitem e ''flavor_text''))
            (filter (\<lambda>e. entry_language e = Inr (PStr ''en'')) es))"
    using Cons.IH Cons.prems by simp
  show ?case
  proof (cases "n = PStr ''en''")
    case True
    then obtain t where "py_getitem e ''flavor_text'' = Inr t" using Cons.prems n by auto
    then show ?thesis using n True ih by simp
  next
    case False
    then show ?thesis using n ih by simp
  qed
qed

text \<open>
  Claim C8, as the code has it. From a list of well-formed entries the texts of exactly
  those tagged \<^verbatim>\<open>en\<close> are kept, in order. Without any, the flavour text is the placeholder.
  Otherwise it is the cleaned text of the entry at the drawn index, whichever index
  below the number of entries is drawn. Cleaning replaces each newline and each form feed
  by one space, character for character (so a run of them becomes as many spaces), and
  then drops the white space at both ends: what is left neither starts nor ends with
  white space, and holds no newline and no form feed.
\<close>

theorem flavor_text_selection:
  "((\<forall>e\<in>set es. (\<exists>n. entry_language e = Inr n)
        \<and> (entry_language e = Inr (PStr ''en'') \<longrightarrow> (\<exists>t. py_getitem e ''flavor_text'' = Inr t))) \<longrightarrow>
      english_entries es =
        Inr (map (\<lambda>e. projr (py_getitem e ''flavor_text''))
               (filter (\<lambda>e. entry_language e = Inr (PStr ''en'')) es)))
   \<and> choose_flavor [] k = Inr ''(No flavor text found)''
   \<and> (k < length entries \<and> entries ! k = PStr s \<longrightarrow> choose_flavor entries k = Inr (clean_text s))
   \<and> (\<exists>pre mid post.
        code_points (map (\<lambda>c. if c = CHR 0x0A \<or> c = CHR 0x0C then CHR '' '' else c) s)
          = pre @ mid @ post
        \<and> list_all is_space pre \<and> list_all is_space post
        \<and> (mid \<noteq> [] \<longrightarrow> \<not> is_space (hd mid) \<and> \<not> is_space (last mid))
        \<and> clean_text s = concat mid)
   \<and> CHR 0x0A \<notin> set (clean_text s) \<and> CHR 0x0C \<notin> set (clean_text s)"
proof -
  let ?r = "map (\<lambda>c. if c = CHR 0x0A \<or> c = CHR 0x0C then CHR '' '' else c) s"
  have ct: "clean_text s = concat (strip_points (code_points ?r))"
    by (simp add: clean_text_def strip_def replace_twice)
  from strip_points_shape[of "code_points ?r"] obtain pre post where
    sh: "code_points ?r = pre @ strip_points (code_points ?r) @ post"
      "list_all is_space pre" "list_all is_space post"
      "strip_points (code_points ?r) \<noteq> [] \<longrightarrow>
          \<not> is_space (hd (strip_points (code_points ?r))) \<and> \<not> is_space (last (strip_points (code_points ?r)))"
    by blast
  have shape: "\<exists>pre mid post. code_points ?r = pre @ mid @ post
        \<and> list_all is_space pre \<and> list_all is_space post
        \<and> (mid \<noteq> [] \<longrightarrow> \<not> is_space (hd mid) \<and> \<not> is_space (last mid))
        \<and> clean_text s = concat mid"
    using sh ct by blast
  have "concat (code_points ?r) = ?r" by (rule concat_code_points)
  then have "set (concat (pre @ strip_points (code_points ?r) @ post)) = set ?r"
    using sh(1) by simp
  then have "set (clean_text s) \<subseteq> set ?r" using ct by auto
  moreover have "CHR 0x0A \<notin> set ?r" "CHR 0x0C \<notin> set ?r" by auto
  ultimately have none: "CHR 0x0A \<notin> set (clean_text s) \<and> CHR 0x0C \<notin> set (clean_text s)" by blast
  have e: "(\<forall>e\<in>set es. (\<exists>n. entry_language e = Inr n)
        \<and> (entry_language e = Inr (PStr ''en'') \<longrightarrow> (\<exists>t. py_getitem e ''flavor_text'' = Inr t))) \<longrightarrow>
      english_entries es =
        Inr (map (\<lambda>e. projr (py_getitem e ''flavor_text''))
               (filter (\<lambda>e. entry_language e = Inr (PStr ''en'')) es))"
    using english_entries_filter by blast
  have p: "choose_flavor [] k = Inr ''(No flavor text found)''" by (simp add: choose_flavor_def)
  have c: "k < length entries \<and> entries ! k = PStr s \<longrightarrow> choose_flavor entries k = Inr (clean_text s)"
    by (auto simp: choose_flavor_def)
  show ?thesis using e p c shape none by blast
qed

theorem flavor_text_selection_witness:
  "english_entries
      [PDict [(PStr ''flavor_text'', PStr ''Eine Saat.''), (PStr ''language'', PDict [(PStr ''name'', PStr ''de'')])],
       PDict [(PStr ''flavor_text'', PStr [CHR '' '', CHR ''A'', CHR 0x0A, CHR ''s'', CHR ''e'', CHR ''e'', CHR ''d'', CHR ''.'', CHR 0x0C]),
              (PStr ''language'', PDict [(PStr ''name'', PStr ''en'')])]]
     = Inr [PStr [CHR '' '', CHR ''A'', CHR 0x0A, CHR ''s'', CHR ''e'', CHR ''e'', CHR ''d'', CHR ''.'', CHR 0x0C]]
   \<and> choose_flavor [] 0 = Inr ''(No flavor text found)''
   \<and> choose_flavor [PStr [CHR '' '', CHR ''A'', CHR 0x0A, CHR ''s'', CHR ''e'', CHR ''e'', CHR ''d'', CHR ''.'', CHR 0x0C]] 0
     = Inr ''A seed.''"
proof -
  let ?de = "PDict [(PStr ''flavor_text'', PStr ''Eine Saat.''), (PStr ''language'', PDict [(PStr ''name'', PStr ''de'')])]"
  let ?t = "[CHR '' '', CHR ''A'', CHR 0x0A, CHR ''s'', CHR ''e'', CHR ''e'', CHR ''d'', CHR ''.'', CHR 0x0C]"
  let ?en = "PDict [(PStr ''flavor_text'', PStr ?t), (PStr ''language'', PDict [(PStr ''name'', PStr ''en'')])]"
  have l: "entry_language ?de = Inr (PStr ''de'')" "entry_language ?en = Inr (PStr ''en'')"
    "py_getitem ?en ''flavor_text'' = Inr (PStr ?t)"
    by (simp_all add: entry_language_def py_getitem_def)
  have ct: "clean_text ?t = ''A seed.''" by code_simp
  from flavor_text_selection[of "[?de, ?en]" 0 "[PStr ?t]" ?t]
  show ?thesis using l ct by simp
qed

text \<open>
  The claim as it stands fails on a run of newlines: two newlines between two letters
  become two spaces, not one.
\<close>

theorem newline_run_keeps_its_length:
  "choose_flavor [PStr [CHR ''a'', CHR 0x0A, CHR 0x0A, CHR ''b'']] 0 = Inr ''a  b''
   \<and> ''a  b'' \<noteq> ''a b''"
  by code_simp

end
